theory Spec2Isabelle
  imports Main "HOL-Library.Word"
begin

section \<open>Data model of opera-note-exporter.cpp\<close>

text \<open>
  Strings are byte lists. The three control bytes the program names: the tab that may
  indent a line, the line feed, and STX (\<open>char(2)\<close>), the separator inside a
  \<open>NAME\<close> value. The double quote and the apostrophe are written by their codes,
  since they cannot stand in a literal.
\<close>

definition TAB :: char where "TAB = CHR 0x09"
definition LF :: char where "LF = CHR 0x0A"
definition STX :: char where "STX = CHR 0x02"
definition DQ :: char where "DQ = CHR 0x22"
definition SQ :: char where "SQ = CHR 0x27"

text \<open>
  \<open>struct Options_t\<close>. Its fields \<open>input\<close> and \<open>output\<close> are
  \<open>input_file\<close> and \<open>output_dir\<close> here, \<open>output\<close> being a reserved word.
\<close>

record Options =
  default_tag :: string
  export_trash :: bool
  input_file :: string
  output_dir :: string
  convert_tags_to_notebooks :: bool

text \<open>
  \<open>class Note\<close>; a member \<open>x_\<close> of the class is the field \<open>m_x\<close>, a name
  not being allowed to end in an underscore. The creation time is a \<open>ptime\<close>:
  default constructed it is not-a-date-time (\<open>None\<close>); once set it is the local
  time of a 32-bit count of seconds, kept here as that count.
\<close>

record Note =
  m_title :: string
  m_note :: string
  m_creation_time :: "32 word option"
  m_tags :: "string list"
  m_uid :: string

definition new_Note :: Note where
  "new_Note = \<lparr>m_title = [], m_note = [], m_creation_time = None, m_tags = [], m_uid = []\<rparr>"

definition SetTitle :: "string \<Rightarrow> Note \<Rightarrow> Note" where
  "SetTitle title n = n\<lparr>m_title := title\<rparr>"

definition SetNote :: "string \<Rightarrow> Note \<Rightarrow> Note" where
  "SetNote note n = n\<lparr>m_note := note\<rparr>"

definition AddTag :: "string \<Rightarrow> Note \<Rightarrow> Note" where
  "AddTag tag n = n\<lparr>m_tags := m_tags n @ [tag]\<rparr>"

definition SetUid :: "string \<Rightarrow> Note \<Rightarrow> Note" where
  "SetUid uid n = n\<lparr>m_uid := uid\<rparr>"

definition SetCreationTimeFromUnixTime :: "32 word \<Rightarrow> Note \<Rightarrow> Note" where
  "SetCreationTimeFromUnixTime time n = n\<lparr>m_creation_time := Some time\<rparr>"

section \<open>EscapeXml\<close>

text \<open>
  The loop of \<open>EscapeXml\<close> walks the string from position 0 and appends to
  \<open>buffer\<close>; the model recurses on the bytes still to read.
\<close>

fun EscapeXml_loop :: "string \<Rightarrow> string \<Rightarrow> string" where
  "EscapeXml_loop buffer [] = buffer"
| "EscapeXml_loop buffer (c # rest) =
     EscapeXml_loop
       (buffer @
         (if c = CHR ''&'' then ''&amp;''
          else if c = DQ then ''&quot;''
          else if c = SQ then ''&apos;''
          else if c = CHR ''<'' then ''&lt;''
          else if c = CHR ''>'' then ''&gt;''
          else [c]))
       rest"

definition EscapeXml :: "string \<Rightarrow> string" where
  "EscapeXml str = EscapeXml_loop [] str"

text \<open>
  The escaping rule in the specification's words: a table from bytes to entity
  sequences, and the reverse mapping of the five sequences, read left to right.
\<close>

definition spec_entity :: "char \<Rightarrow> string" where
  "spec_entity c =
     (if c = CHR ''&'' then ''&amp;''
      else if c = DQ then ''&quot;''
      else if c = SQ then ''&apos;''
      else if c = CHR ''<'' then ''&lt;''
      else if c = CHR ''>'' then ''&gt;''
      else [c])"

fun spec_unescape :: "string \<Rightarrow> string" where
  "spec_unescape [] = []"
| "spec_unescape (c # cs) =
     (if c = CHR ''&'' \<and> take 4 cs = ''amp;'' then CHR ''&'' # spec_unescape (drop 4 cs)
      else if c = CHR ''&'' \<and> take 5 cs = ''quot;'' then DQ # spec_unescape (drop 5 cs)
      else if c = CHR ''&'' \<and> take 5 cs = ''apos;'' then SQ # spec_unescape (drop 5 cs)
      else if c = CHR ''&'' \<and> take 3 cs = ''lt;'' then CHR ''<'' # spec_unescape (drop 3 cs)
      else if c = CHR ''&'' \<and> take 3 cs = ''gt;'' then CHR ''>'' # spec_unescape (drop 3 cs)
      else c # spec_unescape cs)"

section \<open>The line classifier\<close>

text \<open>
  \<open>std::string::substr(pos, n)\<close> throws when \<open>pos\<close> is beyond the size. Both
  callers pass a position within the line: \<open>GetLinePropertyName\<close> passes 0 or 1
  on a line that is not empty (lemma \<open>name_begin_in_range\<close> below), and
  \<open>GetLinePropertyValue\<close> a position it has just found below the size. So the
  model is the total function.
\<close>

definition substr :: "string \<Rightarrow> nat \<Rightarrow> nat \<Rightarrow> string" where
  "substr s pos n = take n (drop pos s)"

function name_loop :: "string \<Rightarrow> nat \<Rightarrow> nat \<Rightarrow> nat" where
  "name_loop line begin len =
     (if length line > begin + len \<and> line ! (begin + len) \<noteq> CHR ''=''
      then name_loop line begin (Suc len) else len)"
  by pat_completeness auto
termination
  by (relation "measure (\<lambda>(line, begin, len). length line - (begin + len))") auto

declare name_loop.simps [simp del]

definition name_begin :: "string \<Rightarrow> nat" where
  "name_begin line = (if line ! 0 = TAB then 1 else 0)"

definition GetLinePropertyName :: "string \<Rightarrow> string" where
  "GetLinePropertyName line =
     (if length line = 0 then []
      else substr line (name_begin line) (name_loop line (name_begin line) 0))"

function value_loop :: "string \<Rightarrow> nat \<Rightarrow> nat" where
  "value_loop line begin =
     (if length line > begin \<and> line ! begin \<noteq> CHR ''=''
      then value_loop line (Suc begin) else begin)"
  by pat_completeness auto
termination
  by (relation "measure (\<lambda>(line, begin). length line - begin)") auto

declare value_loop.simps [simp del]

definition GetLinePropertyValue :: "string \<Rightarrow> string" where
  "GetLinePropertyValue line =
     (let begin = Suc (value_loop line 0)
      in if begin \<ge> length line then [] else substr line begin (length line))"

text \<open>
  The specification's ``line content with one leading tab stripped if present''.
\<close>

definition strip_tab :: "string \<Rightarrow> string" where
  "strip_tab line = (case line of [] \<Rightarrow> [] | c # cs \<Rightarrow> if c = TAB then cs else line)"

section \<open>What the program takes from its libraries and its platform\<close>

text \<open>
  Three things the source calls are not its own code and are parameters of the model:
  \<^item> \<open>boost::lexical_cast<boost::uint32_t>\<close>, with \<open>None\<close> when it throws
    \<open>bad_lexical_cast\<close>;
  \<^item> the rendering of a \<open>ptime\<close> through the local-time adjustor and the time facet
    \<open>%Y-%m-%dT%H:%M:%S.%f\<close>;
  \<^item> whether \<open>std::ofstream::open\<close> succeeds on a path.
  For the first of them \<open>lexical_cast_uint32\<close> below is the conversion the library
  documents.
\<close>

record Env =
  lexical_cast :: "string \<Rightarrow> 32 word option"
  format_ptime :: "32 word option \<Rightarrow> string"
  ofstream_open :: "string \<Rightarrow> bool"

text \<open>
  \<open>boost::lexical_cast\<close> from a string to an unsigned 32-bit integer, as the library
  documents it. The string is an optional sign, \<open>+\<close> or \<open>-\<close>, and then decimal
  digits, at least one and nothing else (no blank is skipped). The number the digits
  denote must not be above \<open>4294967295\<close>, leading zeros not counting. With the minus
  sign the result is the negated number modulo \<open>2 ^ 32\<close>, so that \<open>-1\<close> converts
  to \<open>4294967295\<close>. Everything else throws \<open>bad_lexical_cast\<close>. The library reads
  the digits from the right and checks the bound at each of them; the model reads them
  from the left and checks the bound once.
\<close>

fun decimal_loop :: "nat \<Rightarrow> string \<Rightarrow> nat option" where
  "decimal_loop acc [] = Some acc"
| "decimal_loop acc (c # cs) =
     (if (48::nat) \<le> of_char c \<and> (of_char c :: nat) \<le> 57
      then decimal_loop (10 * acc + (of_char c - 48)) cs
      else None)"

definition lexical_cast_uint32 :: "string \<Rightarrow> 32 word option" where
  "lexical_cast_uint32 str =
     (case str of
        [] \<Rightarrow> None
      | c # cs \<Rightarrow>
          let has_minus = (c = CHR ''-'');
              digits = (if has_minus \<or> c = CHR ''+'' then cs else str)
          in if digits = [] then None
             else case decimal_loop 0 digits of
                    None \<Rightarrow> None
                  | Some n \<Rightarrow>
                      if n \<le> 4294967295
                      then Some (if has_minus then 0 - of_nat n else of_nat n)
                      else None)"

text \<open>
  The strings the conversion takes, said without the loop: a decimal digit is a byte
  from \<open>0\<close> to \<open>9\<close>, and a string of digits denotes a number.
\<close>

definition is_digit :: "char \<Rightarrow> bool" where
  "is_digit c = ((48::nat) \<le> of_char c \<and> (of_char c :: nat) \<le> 57)"

definition decimal_value :: "string \<Rightarrow> nat" where
  "decimal_value ds = foldl (\<lambda>acc c. 10 * acc + (of_char c - 48)) 0 ds"

text \<open>
  The world the program acts on: the files by path, and the lines written to the two
  standard streams (each \<open>std::endl\<close> ends a line).
\<close>

record World =
  files :: "string \<rightharpoonup> string"
  cout :: "string list"
  cerr :: "string list"

text \<open>
  The ways the program stops other than by returning from \<open>main\<close>: a call of
  \<open>exit\<close>, the uncaught \<open>bad_lexical_cast\<close> (the process is terminated
  abnormally), and the two places where the source dereferences an iterator that points at
  nothing: \<open>notes_.rbegin()\<close> of an empty vector and \<open>tokens.begin()\<close> of an
  empty token range.
\<close>

datatype stop = ExitCall int | BadLexicalCast | EmptyNotesAccess | NoTokenDeref

datatype outcome = Returned int | Stopped stop

section \<open>Serialisation\<close>

definition GetTomboyDateString :: "Env \<Rightarrow> Note \<Rightarrow> string" where
  "GetTomboyDateString env n = format_ptime env (m_creation_time n)"

text \<open>The loop over \<open>tags_\<close> in \<open>AsTomboyNote\<close>, appending to \<open>str\<close>.\<close>

fun tags_loop :: "Options \<Rightarrow> string \<Rightarrow> string list \<Rightarrow> string" where
  "tags_loop options str [] = str"
| "tags_loop options str (t # ts) =
     tags_loop options
       ((str @ [TAB, TAB] @ ''<tag>'' @
          (if convert_tags_to_notebooks options then ''system:notebook:'' else []))
        @ EscapeXml t @ ''</tag>'' @ [LF])
       ts"

definition note_open_tag :: string where
  "note_open_tag =
     ''<note version='' @ [DQ] @ ''0.3'' @ [DQ] @
     '' xmlns:link='' @ [DQ] @ ''http://beatniksoftware.com/tomboy/link'' @ [DQ] @
     '' xmlns:size='' @ [DQ] @ ''http://beatniksoftware.com/tomboy/size'' @ [DQ] @
     '' xmlns='' @ [DQ] @ ''http://beatniksoftware.com/tomboy'' @ [DQ] @ ''>'' @ [LF]"

definition note_head :: "Env \<Rightarrow> Note \<Rightarrow> string" where
  "note_head env n =
     (let datestr = GetTomboyDateString env n in
      note_open_tag
      @ [TAB] @ ''<title>'' @ EscapeXml (m_title n) @ ''</title>'' @ [LF]
      @ [TAB] @ ''<text xml:space='' @ [DQ] @ ''preserve'' @ [DQ] @ ''><note-content version=''
        @ [DQ] @ ''0.1'' @ [DQ] @ ''>'' @ EscapeXml (m_note n) @ ''</note-content></text>'' @ [LF]
      @ [TAB] @ ''<last-change-date>'' @ datestr @ ''</last-change-date>'' @ [LF]
      @ [TAB] @ ''<last-metadata-change-date>'' @ datestr @ ''</last-metadata-change-date>'' @ [LF]
      @ [TAB] @ ''<create-date>'' @ datestr @ ''</create-date>'' @ [LF]
      @ [TAB] @ ''<tags>'' @ [LF])"

definition note_tail :: string where
  "note_tail =
     [TAB] @ ''</tags>'' @ [LF]
     @ [TAB] @ ''<cursor-position>0</cursor-position>'' @ [LF]
     @ [TAB] @ ''<width>450</width>'' @ [LF]
     @ [TAB] @ ''<height>360</height>'' @ [LF]
     @ [TAB] @ ''<x>0</x>'' @ [LF]
     @ [TAB] @ ''<y>0</y>'' @ [LF]
     @ [TAB] @ ''<open-on-startup>False</open-on-startup>'' @ [LF]
     @ ''</note>'' @ [LF]"

definition AsTomboyNote :: "Env \<Rightarrow> Options \<Rightarrow> Note \<Rightarrow> string" where
  "AsTomboyNote env options n = tags_loop options (note_head env n) (m_tags n) @ note_tail"

definition out_fname :: "Options \<Rightarrow> Note \<Rightarrow> string" where
  "out_fname options n = output_dir options @ ''/'' @ m_uid n @ ''.note''"

text \<open>
  \<open>std::string::c_str()\<close> as a stream reads it: the path ends at the first NUL byte
  of the string.
\<close>

definition c_str :: "string \<Rightarrow> string" where
  "c_str s = takeWhile (\<lambda>c. c \<noteq> CHR 0x00) s"

text \<open>
  \<open>CreateTomboyNote\<close>. After the message about the missing UID the source does not
  return: it goes on to open the file, at \<open>out_fname.c_str()\<close>. A file that is
  opened is created or truncated, and holds the document and the line end of
  \<open>std::endl\<close>.
\<close>

definition CreateTomboyNote :: "Env \<Rightarrow> Options \<Rightarrow> Note \<Rightarrow> World \<Rightarrow> World" where
  "CreateTomboyNote env options n w =
     (if length (m_note n) = 0 then w\<lparr>cout := cout w @ [''Skipping empty note'']\<rparr>
      else
        let w1 = (if length (m_uid n) = 0
                  then w\<lparr>cerr := cerr w @ [''Failed to create note: Note does not have UID'']\<rparr>
                  else w)
        in if \<not> ofstream_open env (c_str (out_fname options n))
           then w1\<lparr>cerr := cerr w1 @ [''Failed to create note: Failed to create file'']\<rparr>
           else w1\<lparr>files := (files w1)(c_str (out_fname options n)
                                          \<mapsto> AsTomboyNote env options n @ [LF])\<rparr>)"

fun WriteFiles :: "Env \<Rightarrow> Options \<Rightarrow> Note list \<Rightarrow> World \<Rightarrow> World" where
  "WriteFiles env options [] w = w"
| "WriteFiles env options (n # ns) w = WriteFiles env options ns (CreateTomboyNote env options n w)"

section \<open>The parser\<close>

text \<open>
  \<open>boost::tokenizer\<close> with \<open>char_separator\<close> on the one dropped delimiter STX, empty
  tokens dropped: \<open>tokens.begin()\<close> skips the leading delimiters and reads up to the
  next one; it equals \<open>tokens.end()\<close> (\<open>None\<close>) when nothing is left after the
  skip.
\<close>

definition tokens_begin :: "string \<Rightarrow> string option" where
  "tokens_begin str =
     (let rest = dropWhile (\<lambda>c. c = STX) str
      in if rest = [] then None else Some (takeWhile (\<lambda>c. c \<noteq> STX) rest))"

definition ParseFolderName :: "string \<Rightarrow> stop + string" where
  "ParseFolderName str = (case tokens_begin str of None \<Rightarrow> Inl NoTokenDeref | Some t \<Rightarrow> Inr t)"

definition ParseNoteTitle :: "string \<Rightarrow> string" where
  "ParseNoteTitle str = (case tokens_begin str of Some t \<Rightarrow> t | None \<Rightarrow> ''<no-title>'')"

text \<open>\<open>boost::replace_all\<close>: every occurrence of the search string, left to right, none overlapping.\<close>

function replace_all :: "string \<Rightarrow> string \<Rightarrow> string \<Rightarrow> string" where
  "replace_all [] search fmt = []"
| "replace_all (c # cs) search fmt =
     (if search \<noteq> [] \<and> take (length search) (c # cs) = search
      then fmt @ replace_all (drop (length search) (c # cs)) search fmt
      else c # replace_all cs search fmt)"
  by pat_completeness auto
termination
  by (relation "measure (\<lambda>(s, search, fmt). length s)") auto

definition ParseNote :: "string \<Rightarrow> string" where
  "ParseNote str = replace_all str [STX, STX] [LF]"

text \<open>
  The state of \<open>ParseFile\<close>'s loop: the member \<open>notes_\<close> and the three locals.
\<close>

record ParserState =
  m_notes :: "Note list"
  current_folder_name :: string
  in_folder :: bool
  in_trash :: bool

definition initial_state :: ParserState where
  "initial_state = \<lparr>m_notes = [], current_folder_name = [], in_folder = False, in_trash = False\<rparr>"

text \<open>\<open>notes_.rbegin()->f(...)\<close>: the last note is changed; there is none in an empty vector.\<close>

definition on_rbegin :: "(Note \<Rightarrow> Note) \<Rightarrow> ParserState \<Rightarrow> stop + ParserState" where
  "on_rbegin f s =
     (if m_notes s = [] then Inl EmptyNotesAccess
      else Inr (s\<lparr>m_notes := butlast (m_notes s) @ [f (last (m_notes s))]\<rparr>))"

text \<open>The body of the \<open>while\<close> loop of \<open>ParseFile\<close>, for one line.\<close>

definition ParseLine :: "Env \<Rightarrow> Options \<Rightarrow> string \<Rightarrow> ParserState \<Rightarrow> stop + ParserState" where
  "ParseLine env options line s =
     (let prop = GetLinePropertyName line in
      if prop = ''#FOLDER'' then Inr (s\<lparr>in_folder := True, in_trash := False\<rparr>)
      else
        let s1 = (if prop = ''TRASH FOLDER'' \<and> GetLinePropertyValue line = ''YES''
                  then s\<lparr>in_trash := True\<rparr> else s)
        in
        if in_trash s1 \<and> \<not> export_trash options then Inr s1
        else if prop = ''#NOTE'' then
          let n1 = (if length (default_tag options) > 0
                    then AddTag (default_tag options) new_Note else new_Note);
              n2 = (if length (current_folder_name s1) > 0
                    then AddTag (current_folder_name s1) n1 else n1)
          in Inr (s1\<lparr>m_notes := m_notes s1 @ [n2], in_folder := False\<rparr>)
        else if \<not> in_folder s1 \<and> prop = ''UNIQUEID'' then
          on_rbegin (SetUid (GetLinePropertyValue line)) s1
        else if prop = ''NAME'' then
          (let name_str = GetLinePropertyValue line in
           if in_folder s1 then
             (case ParseFolderName name_str of
                Inl e \<Rightarrow> Inl e
              | Inr name \<Rightarrow> Inr (s1\<lparr>current_folder_name := name\<rparr>))
           else
             (case on_rbegin (SetTitle (ParseNoteTitle name_str)) s1 of
                Inl e \<Rightarrow> Inl e
              | Inr s2 \<Rightarrow> on_rbegin (SetNote (ParseNote name_str)) s2))
        else if prop = ''CREATED'' then
          (case lexical_cast env (GetLinePropertyValue line) of
             None \<Rightarrow> Inl BadLexicalCast
           | Some date_val \<Rightarrow> on_rbegin (SetCreationTimeFromUnixTime date_val) s1)
        else Inr s1)"

fun ParseLines :: "Env \<Rightarrow> Options \<Rightarrow> string list \<Rightarrow> ParserState \<Rightarrow> stop + ParserState" where
  "ParseLines env options [] s = Inr s"
| "ParseLines env options (line # rest) s =
     (case ParseLine env options line s of
        Inl e \<Rightarrow> Inl e
      | Inr s' \<Rightarrow> ParseLines env options rest s')"

text \<open>
  \<open>std::getline\<close> in the loop condition: a line ends at a line feed, which is not part
  of it; what follows the last line feed is a line when it is not empty.
\<close>

fun getline_loop :: "string \<Rightarrow> string \<Rightarrow> string list" where
  "getline_loop line [] = (if line = [] then [] else [line])"
| "getline_loop line (c # cs) =
     (if c = LF then line # getline_loop [] cs else getline_loop (line @ [c]) cs)"

definition getlines :: "string \<Rightarrow> string list" where
  "getlines content = getline_loop [] content"

definition ParseFile :: "Env \<Rightarrow> Options \<Rightarrow> World \<Rightarrow> World \<times> (stop + Note list)" where
  "ParseFile env options w =
     (case files w (c_str (input_file options)) of
        None \<Rightarrow> (w\<lparr>cerr := cerr w @ [''Failed to open input file'']\<rparr>, Inl (ExitCall (- 1)))
      | Some content \<Rightarrow>
          (case ParseLines env options (getlines content) initial_state of
             Inl e \<Rightarrow> (w, Inl e)
           | Inr s \<Rightarrow> (w, Inr (m_notes s))))"

text \<open>
  \<open>main\<close> from the point where the options are parsed: the parser is built, the file
  is parsed, the notes are written, and \<open>main\<close> returns 0.
\<close>

definition main :: "Env \<Rightarrow> Options \<Rightarrow> World \<Rightarrow> World \<times> outcome" where
  "main env options w =
     (case ParseFile env options w of
        (w1, Inl e) \<Rightarrow> (w1, Stopped e)
      | (w1, Inr notes) \<Rightarrow> (WriteFiles env options notes w1, Returned 0))"

section \<open>Concrete inputs for the examples\<close>

text \<open>
  Modelled from the spec: the specification says the value of a \<open>CREATED\<close> line ``is
  parsed as an unsigned decimal integer'', and the target has 32 bits. In this reading
  a valid value is decimal digits only, at least one, the number below \<open>2 ^ 32\<close>.
  No function of the program is this one; it says which values the specification calls
  valid.
\<close>

definition spec_uint32 :: "string \<Rightarrow> 32 word option" where
  "spec_uint32 str =
     (if str = [] then None
      else case decimal_loop 0 str of
             None \<Rightarrow> None
           | Some n \<Rightarrow> if n < 2 ^ 32 then Some (of_nat n) else None)"

text \<open>
  An environment for the examples: the conversion of the library, every output file can
  be created, and a clock whose local zone is UTC, defined on the two instants the
  examples use.
\<close>

definition example_env :: Env where
  "example_env =
     \<lparr>lexical_cast = lexical_cast_uint32,
      format_ptime = (\<lambda>t. if t = Some 1000000000 then ''2001-09-09T01:46:40.000000''
                           else if t = Some 4294967295 then ''2106-02-07T06:28:15.000000''
                           else ''not-a-date-time''),
      ofstream_open = (\<lambda>path. True)\<rparr>"

text \<open>The options as \<open>main\<close> leaves them when only the two paths are given.\<close>

definition default_options :: Options where
  "default_options =
     \<lparr>default_tag = [], export_trash = False, input_file = ''notes.adr'',
      output_dir = ''exported'', convert_tags_to_notebooks = False\<rparr>"

definition world_with :: "string \<Rightarrow> World" where
  "world_with content = \<lparr>files = [''notes.adr'' \<mapsto> content], cout = [], cerr = []\<rparr>"

text \<open>The input of the specification's round-trip scenario, and the note it parses to.\<close>

definition soup_input :: string where
  "soup_input =
     ''#FOLDER'' @ [LF] @ ''NAME=Recipes'' @ [STX, LF] @ ''#NOTE'' @ [LF]
     @ ''UNIQUEID=abc123'' @ [LF]
     @ ''NAME=Soup'' @ [STX] @ ''Boil'' @ [STX, STX] @ ''Serve'' @ [LF]
     @ ''CREATED=1000000000'' @ [LF]"

definition soup_note :: "32 word \<Rightarrow> Note" where
  "soup_note t =
     \<lparr>m_title = ''Soup'',
      m_note = ''Soup'' @ [STX] @ ''Boil'' @ [LF] @ ''Serve'',
      m_creation_time = Some t,
      m_tags = [''Recipes''],
      m_uid = ''abc123''\<rparr>"

text \<open>The options of a run with \<open>--tag=Imported --tags-to-notebooks=1\<close>.\<close>

definition imported_options :: Options where
  "imported_options =
     \<lparr>default_tag = ''Imported'', export_trash = False, input_file = ''notes.adr'',
      output_dir = ''exported'', convert_tags_to_notebooks = True\<rparr>"







text \<open>An input whose one note has the creation time \<open>-1\<close>, and the note it parses to.\<close>

definition minus_input :: string where
  "minus_input =
     ''#NOTE'' @ [LF] @ ''UNIQUEID=u1'' @ [LF] @ ''NAME=t'' @ [STX, STX] @ ''b'' @ [LF]
     @ ''CREATED=-1'' @ [LF]"

definition minus_note :: Note where
  "minus_note =
     \<lparr>m_title = ''t'', m_note = ''t'' @ [LF] @ ''b'', m_creation_time = Some 4294967295,
      m_tags = [], m_uid = ''u1''\<rparr>"

section \<open>Properties\<close>

subsection \<open>The loops of the line classifier\<close>

lemma name_loop_eq:
  "b + len \<le> length line \<Longrightarrow>
   name_loop line b len = len + length (takeWhile (\<lambda>c. c \<noteq> CHR ''='') (drop (b + len) line))"
proof (induction line b len rule: name_loop.induct)
  case (1 line b len)
  show ?case
  proof (cases "length line > b + len")
    case False
    then show ?thesis by (subst name_loop.simps) simp
  next
    case True
    then have d: "drop (b + len) line = line ! (b + len) # drop (b + Suc len) line"
      by (simp add: Cons_nth_drop_Suc)
    show ?thesis
    proof (cases "line ! (b + len) = CHR ''=''")
      case True
      then show ?thesis by (subst name_loop.simps) (simp add: d)
    next
      case False
      with True 1 show ?thesis by (subst name_loop.simps) (simp add: d)
    qed
  qed
qed

lemma value_loop_eq:
  "b \<le> length line \<Longrightarrow>
   value_loop line b = b + length (takeWhile (\<lambda>c. c \<noteq> CHR ''='') (drop b line))"
proof (induction line b rule: value_loop.induct)
  case (1 line b)
  show ?case
  proof (cases "length line > b")
    case False
    then show ?thesis by (subst value_loop.simps) simp
  next
    case True
    then have d: "drop b line = line ! b # drop (Suc b) line"
      by (simp add: Cons_nth_drop_Suc)
    show ?thesis
    proof (cases "line ! b = CHR ''=''")
      case True
      then show ?thesis by (subst value_loop.simps) (simp add: d)
    next
      case False
      with True 1 show ?thesis by (subst value_loop.simps) (simp add: d)
    qed
  qed
qed

lemma name_begin_in_range: "line \<noteq> [] \<Longrightarrow> name_begin line \<le> length line"
  by (cases line) (simp_all add: name_begin_def)

lemma take_length_takeWhile: "take (length (takeWhile P xs)) xs = takeWhile P xs"
  by (induction xs) simp_all

lemma drop_length_takeWhile: "drop (length (takeWhile P xs)) xs = dropWhile P xs"
  by (induction xs) simp_all

lemma GetLinePropertyName_eq:
  "GetLinePropertyName line = takeWhile (\<lambda>c. c \<noteq> CHR ''='') (strip_tab line)"
proof (cases line)
  case Nil
  then show ?thesis by (simp add: GetLinePropertyName_def strip_tab_def)
next
  case (Cons c cs)
  let ?P = "\<lambda>c. c \<noteq> CHR ''=''"
  let ?b = "name_begin line"
  have r: "?b \<le> length line" using Cons name_begin_in_range [of line] by simp
  have s: "drop ?b line = strip_tab line"
    using Cons by (simp add: strip_tab_def name_begin_def)
  have n: "name_loop line ?b 0 = length (takeWhile ?P (drop ?b line))"
    using name_loop_eq [of ?b 0 line] r by simp
  have "GetLinePropertyName line = take (name_loop line ?b 0) (drop ?b line)"
    using Cons by (simp add: GetLinePropertyName_def substr_def)
  also have "\<dots> = takeWhile ?P (drop ?b line)"
    by (simp only: n take_length_takeWhile)
  finally show ?thesis by (simp only: s)
qed

lemma GetLinePropertyValue_eq:
  "GetLinePropertyValue line = tl (dropWhile (\<lambda>c. c \<noteq> CHR ''='') line)"
proof -
  let ?P = "\<lambda>c. c \<noteq> CHR ''=''"
  let ?k = "Suc (length (takeWhile ?P line))"
  have v: "value_loop line 0 = length (takeWhile ?P line)"
    using value_loop_eq [of 0 line] by simp
  have d: "drop ?k line = tl (dropWhile ?P line)"
    by (simp add: drop_Suc drop_tl drop_length_takeWhile)
  have t: "take (length line) (drop ?k line) = drop ?k line" by simp
  have g: "GetLinePropertyValue line = (if ?k \<ge> length line then [] else drop ?k line)"
    by (simp only: GetLinePropertyValue_def Let_def v substr_def t)
  show ?thesis
  proof (cases "?k \<ge> length line")
    case True
    then have "drop ?k line = []" by simp
    with g True d show ?thesis by simp
  next
    case False
    with g d show ?thesis by simp
  qed
qed

subsection \<open>One line of the parser\<close>

lemma in_trash_update_same: "in_trash s \<Longrightarrow> s\<lparr>in_trash := True\<rparr> = s"
  by (cases s) simp


lemma ParseLine_skipped:
  "GetLinePropertyName line \<noteq> ''#FOLDER'' \<Longrightarrow> in_trash s \<Longrightarrow> \<not> export_trash options \<Longrightarrow>
   ParseLine env options line s = Inr s"
  by (simp add: ParseLine_def Let_def in_trash_update_same)


lemma on_rbegin_Inr:
  "on_rbegin f s = Inr s' \<Longrightarrow>
   m_notes s \<noteq> [] \<and> s' = s\<lparr>m_notes := butlast (m_notes s) @ [f (last (m_notes s))]\<rparr>"
  by (auto simp: on_rbegin_def split: if_splits)

lemma on_rbegin_nonempty:
  "m_notes s \<noteq> [] \<Longrightarrow>
   on_rbegin f s = Inr (s\<lparr>m_notes := butlast (m_notes s) @ [f (last (m_notes s))]\<rparr>)"
  by (simp add: on_rbegin_def)

lemma on_rbegin_Inl: "on_rbegin f s = Inl e \<Longrightarrow> e = EmptyNotesAccess \<and> m_notes s = []"
  by (auto simp: on_rbegin_def split: if_splits)

text \<open>A line that is not the record marker keeps the number of notes.\<close>

lemma ParseLine_length_other:
  assumes "ParseLine env options line s = Inr s'"
    and "GetLinePropertyName line \<noteq> ''#NOTE''"
  shows "length (m_notes s') = length (m_notes s)"
  using assms
  by (auto simp: ParseLine_def Let_def ParseFolderName_def
      split: if_splits sum.splits option.splits dest!: on_rbegin_Inr)

lemma ParseLine_NOTE:
  assumes "GetLinePropertyName line = ''#NOTE''"
    and "\<not> (in_trash s \<and> \<not> export_trash options)"
  shows "ParseLine env options line s =
     Inr (s\<lparr>m_notes := m_notes s @
              [(if length (current_folder_name s) > 0 then AddTag (current_folder_name s) else id)
                 ((if length (default_tag options) > 0 then AddTag (default_tag options) else id)
                    new_Note)],
            in_folder := False\<rparr>)"
  using assms by (auto simp: ParseLine_def Let_def)

lemma ParseLine_length_mono:
  "ParseLine env options line s = Inr s' \<Longrightarrow> length (m_notes s) \<le> length (m_notes s')"
  by (auto simp: ParseLine_def Let_def ParseFolderName_def
      split: if_splits sum.splits option.splits dest!: on_rbegin_Inr)


lemma ParseLine_EmptyNotesAccess:
  assumes "ParseLine env options line s = Inl EmptyNotesAccess"
  shows "m_notes s = [] \<and> \<not> (in_trash s \<and> \<not> export_trash options)
     \<and> (GetLinePropertyName line = ''CREATED''
        \<or> (GetLinePropertyName line = ''UNIQUEID'' \<or> GetLinePropertyName line = ''NAME'')
           \<and> \<not> in_folder s)"
  using assms
  by (auto simp: ParseLine_def Let_def ParseFolderName_def
      split: if_splits sum.splits option.splits dest!: on_rbegin_Inr on_rbegin_Inl)

lemma ParseLine_CREATED_bad:
  assumes "GetLinePropertyName line = ''CREATED''"
    and "\<not> (in_trash s \<and> \<not> export_trash options)"
    and "lexical_cast env (GetLinePropertyValue line) = None"
  shows "ParseLine env options line s = Inl BadLexicalCast"
  using assms by (auto simp: ParseLine_def Let_def)

subsection \<open>The loop over the lines\<close>

lemma ParseLines_append:
  "ParseLines env options (xs @ ys) s =
     (case ParseLines env options xs s of
        Inl e \<Rightarrow> Inl e
      | Inr s' \<Rightarrow> ParseLines env options ys s')"
  by (induction xs arbitrary: s) (auto split: sum.splits)

lemma ParseLines_length_mono:
  "ParseLines env options xs s = Inr s' \<Longrightarrow> length (m_notes s) \<le> length (m_notes s')"
proof (induction xs arbitrary: s)
  case Nil
  then show ?case by simp
next
  case (Cons x xs)
  then obtain s1 where 1: "ParseLine env options x s = Inr s1"
    and 2: "ParseLines env options xs s1 = Inr s'"
    by (auto split: sum.splits)
  from ParseLine_length_mono [OF 1] Cons.IH [OF 2] show ?case by simp
qed




subsection \<open>The escaper\<close>

lemma EscapeXml_loop_eq: "EscapeXml_loop buffer s = buffer @ concat (map spec_entity s)"
  by (induction s arbitrary: buffer) (simp_all add: spec_entity_def)

lemma EscapeXml_eq: "EscapeXml s = concat (map spec_entity s)"
  by (simp add: EscapeXml_def EscapeXml_loop_eq)

lemma spec_unescape_entity: "spec_unescape (spec_entity c @ r) = c # spec_unescape r"
  by (simp add: spec_entity_def DQ_def SQ_def)

lemma spec_unescape_concat: "spec_unescape (concat (map spec_entity s)) = s"
  by (induction s) (simp_all add: spec_unescape_entity del: spec_unescape.simps(2))

text \<open>
  Claim C5. For every string, \<open>EscapeXml\<close> replaces each byte on its own and in
  place by the table of the specification: the five special bytes by their entities,
  every other byte by itself. Mapping the five entities back, left to right, gives the
  original string.
\<close>

theorem EscapeXml_table_and_roundtrip:
  "EscapeXml str = concat (map spec_entity str)
   \<and> spec_entity (CHR ''&'') = ''&amp;''
   \<and> spec_entity DQ = ''&quot;''
   \<and> spec_entity SQ = ''&apos;''
   \<and> spec_entity (CHR ''<'') = ''&lt;''
   \<and> spec_entity (CHR ''>'') = ''&gt;''
   \<and> (c \<notin> {CHR ''&'', DQ, SQ, CHR ''<'', CHR ''>''} \<longrightarrow> spec_entity c = [c])
   \<and> spec_unescape (EscapeXml str) = str"
  by (simp add: EscapeXml_eq spec_unescape_concat spec_entity_def DQ_def SQ_def)

theorem EscapeXml_table_and_roundtrip_witness:
  "EscapeXml (''a&b<'' @ [DQ]) = ''a&amp;b&lt;&quot;''
   \<and> CHR ''a'' \<notin> {CHR ''&'', DQ, SQ, CHR ''<'', CHR ''>''}
   \<and> spec_entity (CHR ''a'') = ''a''
   \<and> spec_unescape ''a&amp;b&lt;&quot;'' = ''a&b<'' @ [DQ]"
  using EscapeXml_table_and_roundtrip [of "''a&b<'' @ [DQ]" "CHR ''a''"]
  by (simp add: spec_entity_def DQ_def SQ_def)

text \<open>
  Claim C6. A line without \<open>=\<close> has the empty value and, as its name, the line
  without its one leading tab; the empty line has the empty name; in a line with
  \<open>=\<close> the value is what follows the first \<open>=\<close>.
\<close>

theorem line_classifier:
  "(CHR ''='' \<notin> set line \<longrightarrow>
      GetLinePropertyValue line = [] \<and> GetLinePropertyName line = strip_tab line)
   \<and> GetLinePropertyName [] = []
   \<and> (CHR ''='' \<notin> set pre \<longrightarrow> GetLinePropertyValue (pre @ CHR ''='' # v) = v)"
proof (intro conjI impI)
  assume n: "CHR ''='' \<notin> set line"
  then have "dropWhile (\<lambda>c. c \<noteq> CHR ''='') line = []" by auto
  then show "GetLinePropertyValue line = []" by (simp only: GetLinePropertyValue_eq list.sel)
  from n have "CHR ''='' \<notin> set (strip_tab line)"
    by (cases line) (auto simp: strip_tab_def)
  then have "takeWhile (\<lambda>c. c \<noteq> CHR ''='') (strip_tab line) = strip_tab line"
    by auto
  then show "GetLinePropertyName line = strip_tab line" by (simp add: GetLinePropertyName_eq)
next
  show "GetLinePropertyName [] = []" by (simp add: GetLinePropertyName_def)
next
  assume "CHR ''='' \<notin> set pre"
  then have "dropWhile (\<lambda>c. c \<noteq> CHR ''='') (pre @ CHR ''='' # v) = CHR ''='' # v"
    by (auto simp: dropWhile_append3)
  then show "GetLinePropertyValue (pre @ CHR ''='' # v) = v" by (simp add: GetLinePropertyValue_eq)
qed

theorem line_classifier_witness:
  "CHR ''='' \<notin> set (TAB # ''#NOTE'')
   \<and> GetLinePropertyValue (TAB # ''#NOTE'') = [] \<and> GetLinePropertyName (TAB # ''#NOTE'') = ''#NOTE''
   \<and> CHR ''='' \<notin> set (TAB # ''NAME'')
   \<and> GetLinePropertyValue (TAB # ''NAME=a=b'') = ''a=b''"
  using line_classifier [of "TAB # ''#NOTE''" "TAB # ''NAME''" "''a=b''"]
  by (simp add: strip_tab_def TAB_def)

subsection \<open>Serialisation of one note\<close>

lemma CreateTomboyNote_empty_body:
  "m_note n = [] \<Longrightarrow>
   CreateTomboyNote env options n w = w\<lparr>cout := cout w @ [''Skipping empty note'']\<rparr>"
  by (simp add: CreateTomboyNote_def)

lemma CreateTomboyNote_no_uid:
  assumes "m_note n \<noteq> []" and "m_uid n = []"
    and "ofstream_open env (c_str (output_dir options @ ''/.note''))"
  shows "CreateTomboyNote env options n w =
     w\<lparr>cerr := cerr w @ [''Failed to create note: Note does not have UID''],
       files := (files w)(c_str (output_dir options @ ''/.note'')
                           \<mapsto> AsTomboyNote env options n @ [LF])\<rparr>"
  using assms by (simp add: CreateTomboyNote_def out_fname_def)

lemma CreateTomboyNote_written:
  assumes "m_note n \<noteq> []" and "m_uid n \<noteq> []"
    and "ofstream_open env (c_str (out_fname options n))"
  shows "CreateTomboyNote env options n w =
     w\<lparr>files := (files w)(c_str (out_fname options n) \<mapsto> AsTomboyNote env options n @ [LF])\<rparr>"
  using assms by (simp add: CreateTomboyNote_def)

text \<open>
  Claim C9. A note with the empty body is skipped whatever its other fields are: one
  line on the standard output, nothing on the error stream, and no file created or
  changed.
\<close>

theorem empty_body_skipped:
  "m_note n = [] \<Longrightarrow>
   CreateTomboyNote env options n w = w\<lparr>cout := cout w @ [''Skipping empty note'']\<rparr>
   \<and> files (CreateTomboyNote env options n w) = files w
   \<and> cerr (CreateTomboyNote env options n w) = cerr w"
  by (simp add: CreateTomboyNote_empty_body)

theorem empty_body_skipped_witness:
  "m_note (new_Note\<lparr>m_title := ''T'', m_uid := ''u1'', m_tags := [''Work'']\<rparr>) = []
   \<and> files (CreateTomboyNote example_env default_options
               (new_Note\<lparr>m_title := ''T'', m_uid := ''u1'', m_tags := [''Work'']\<rparr>) (world_with []))
       = files (world_with [])
   \<and> cout (CreateTomboyNote example_env default_options
               (new_Note\<lparr>m_title := ''T'', m_uid := ''u1'', m_tags := [''Work'']\<rparr>) (world_with []))
       = [''Skipping empty note'']"
  using empty_body_skipped [of "new_Note\<lparr>m_title := ''T'', m_uid := ''u1'', m_tags := [''Work'']\<rparr>"
      example_env default_options "world_with []"]
  by (simp add: new_Note_def world_with_def)

text \<open>
  Claim C1, at a note with the body \<open>body\<close> and no UID, in an output directory where
  files can be created: the error is reported, and the file \<open>exported/.note\<close> is
  written all the same, since \<open>CreateTomboyNote\<close> does not return after the message.
\<close>

theorem missing_uid_still_writes:
  "cerr (CreateTomboyNote example_env default_options (new_Note\<lparr>m_note := ''body''\<rparr>) (world_with []))
     = [''Failed to create note: Note does not have UID'']
   \<and> files (CreateTomboyNote example_env default_options (new_Note\<lparr>m_note := ''body''\<rparr>) (world_with []))
         ''exported/.note''
     = Some (AsTomboyNote example_env default_options (new_Note\<lparr>m_note := ''body''\<rparr>) @ [LF])
   \<and> files (world_with []) ''exported/.note'' = None"
proof -
  let ?n = "new_Note\<lparr>m_note := ''body''\<rparr>"
  have 1: "m_note ?n \<noteq> []" by simp
  have 2: "m_uid ?n = []" by (simp add: new_Note_def)
  have 3: "ofstream_open example_env (c_str (output_dir default_options @ ''/.note''))"
    by (simp add: example_env_def)
  have o: "c_str (output_dir default_options @ ''/.note'') = ''exported/.note''"
    by (simp add: default_options_def c_str_def)
  show ?thesis
    using CreateTomboyNote_no_uid [OF 1 2 3, of "world_with []"]
    by (simp add: o world_with_def)
qed

subsection \<open>Titles\<close>

lemma tokens_begin_None: "tokens_begin v = None \<longleftrightarrow> set v \<subseteq> {STX}"
proof -
  have "dropWhile (\<lambda>c. c = STX) v = [] \<longleftrightarrow> set v \<subseteq> {STX}" by auto
  then show ?thesis by (simp add: tokens_begin_def Let_def)
qed

lemma ParseNoteTitle_eq:
  "ParseNoteTitle v =
     (if set v \<subseteq> {STX} then ''<no-title>''
      else takeWhile (\<lambda>c. c \<noteq> STX) (dropWhile (\<lambda>c. c = STX) v))"
proof (cases "tokens_begin v")
  case None
  then have "set v \<subseteq> {STX}" by (simp add: tokens_begin_None)
  with None show ?thesis by (simp add: ParseNoteTitle_def)
next
  case (Some t)
  then have n: "\<not> set v \<subseteq> {STX}" using tokens_begin_None [of v] by simp
  from Some have "t = takeWhile (\<lambda>c. c \<noteq> STX) (dropWhile (\<lambda>c. c = STX) v)"
    by (simp add: tokens_begin_def Let_def split: if_splits)
  with Some n show ?thesis by (simp add: ParseNoteTitle_def)
qed

lemma ParseLine_note_NAME:
  assumes "GetLinePropertyName line = ''NAME''"
    and "\<not> (in_trash s \<and> \<not> export_trash options)"
    and "\<not> in_folder s" and "m_notes s \<noteq> []"
  shows "ParseLine env options line s =
     Inr (s\<lparr>m_notes := butlast (m_notes s) @
            [SetNote (ParseNote (GetLinePropertyValue line))
               (SetTitle (ParseNoteTitle (GetLinePropertyValue line)) (last (m_notes s)))]\<rparr>)"
  using assms by (auto simp: ParseLine_def Let_def on_rbegin_def)

text \<open>
  Claim C4, as amended. A \<open>NAME\<close> line processed outside a folder header sets the
  title of the last note to the first non-empty run of bytes between STX bytes in the
  value: the leading STX bytes are skipped and the title runs up to the next STX or the
  end. The title is the placeholder when the value has no such run, that is when it is
  empty or holds STX bytes only.
\<close>

theorem note_title_first_token:
  assumes "GetLinePropertyName line = ''NAME''"
    and "\<not> (in_trash s \<and> \<not> export_trash options)"
    and "\<not> in_folder s" and "m_notes s \<noteq> []"
  shows "\<exists>s'. ParseLine env options line s = Inr s'
     \<and> m_title (last (m_notes s')) = ParseNoteTitle (GetLinePropertyValue line)
     \<and> ParseNoteTitle (GetLinePropertyValue line) =
         (if set (GetLinePropertyValue line) \<subseteq> {STX} then ''<no-title>''
          else takeWhile (\<lambda>c. c \<noteq> STX) (dropWhile (\<lambda>c. c = STX) (GetLinePropertyValue line)))"
  using ParseLine_note_NAME [OF assms, of env] ParseNoteTitle_eq [of "GetLinePropertyValue line"]
  by (simp add: SetNote_def SetTitle_def)

theorem note_title_first_token_witness:
  "GetLinePropertyName (''NAME='' @ [STX] @ ''Soup'' @ [STX] @ ''Boil'') = ''NAME''
   \<and> (\<exists>s'. ParseLine example_env default_options (''NAME='' @ [STX] @ ''Soup'' @ [STX] @ ''Boil'')
               (initial_state\<lparr>m_notes := [new_Note]\<rparr>) = Inr s'
          \<and> m_title (last (m_notes s')) = ''Soup'')"
proof -
  let ?line = "''NAME='' @ [STX] @ ''Soup'' @ [STX] @ ''Boil''"
  let ?s = "initial_state\<lparr>m_notes := [new_Note]\<rparr>"
  have 1: "GetLinePropertyName ?line = ''NAME''"
    by (simp add: GetLinePropertyName_eq strip_tab_def TAB_def)
  have 2: "\<not> (in_trash ?s \<and> \<not> export_trash default_options)" by (simp add: initial_state_def)
  have 3: "\<not> in_folder ?s" by (simp add: initial_state_def)
  have 4: "m_notes ?s \<noteq> []" by simp
  have t: "ParseNoteTitle (GetLinePropertyValue ?line) = ''Soup''"
    by (simp add: GetLinePropertyValue_eq ParseNoteTitle_def tokens_begin_def STX_def)
  from note_title_first_token [OF 1 2 3 4, of example_env]
  obtain s' where "ParseLine example_env default_options ?line ?s = Inr s'"
    and "m_title (last (m_notes s')) = ParseNoteTitle (GetLinePropertyValue ?line)"
    by blast
  with t 1 show ?thesis by (intro conjI exI [of _ s']) simp_all
qed

text \<open>
  The claim as it stands fails in both directions: a value without STX gives its own
  bytes as the title, not the placeholder, and a value that is one STX byte gives the
  placeholder.
\<close>

theorem note_title_placeholder_counterexample:
  "STX \<notin> set ''Soup'' \<and> ParseNoteTitle ''Soup'' \<noteq> ''<no-title>''
   \<and> STX \<in> set [STX] \<and> ParseNoteTitle [STX] = ''<no-title>''"
  by (simp add: ParseNoteTitle_def tokens_begin_def STX_def)

subsection \<open>Tags\<close>

lemma EscapeXml_append: "EscapeXml (a @ b) = EscapeXml a @ EscapeXml b"
  by (simp add: EscapeXml_eq)

lemma EscapeXml_notebook_prefix: "EscapeXml ''system:notebook:'' = ''system:notebook:''"
  by (simp add: EscapeXml_eq spec_entity_def DQ_def SQ_def)

lemma tags_loop_eq:
  "tags_loop options str ts =
     str @ concat (map (\<lambda>t. [TAB, TAB] @ ''<tag>''
                          @ (if convert_tags_to_notebooks options then ''system:notebook:'' else [])
                          @ EscapeXml t @ ''</tag>'' @ [LF]) ts)"
  by (induction ts arbitrary: str) simp_all

lemma map_tags_on_last:
  assumes "ns \<noteq> []" and "m_tags (f (last ns)) = m_tags (last ns)"
  shows "map m_tags (butlast ns @ [f (last ns)]) = map m_tags ns"
proof -
  have "map m_tags (butlast ns @ [f (last ns)]) = map m_tags (butlast ns @ [last ns])"
    using assms(2) by simp
  with assms(1) show ?thesis by simp
qed

lemma on_rbegin_tags:
  assumes "on_rbegin f s = Inr s'" and "\<And>n. m_tags (f n) = m_tags n"
  shows "map m_tags (m_notes s') = map m_tags (m_notes s)"
proof -
  from on_rbegin_Inr [OF assms(1)]
  have ne: "m_notes s \<noteq> []"
    and eq: "s' = s\<lparr>m_notes := butlast (m_notes s) @ [f (last (m_notes s))]\<rparr>" by simp_all
  from eq have "m_notes s' = butlast (m_notes s) @ [f (last (m_notes s))]" by simp
  with map_tags_on_last [of "m_notes s" f, OF ne assms(2)] show ?thesis by simp
qed

text \<open>Only the record marker adds a note; no line changes the tags of a note already there.\<close>

lemma ParseLine_tags_kept:
  assumes "ParseLine env options line s = Inr s'"
  shows "map m_tags (take (length (m_notes s)) (m_notes s')) = map m_tags (m_notes s)"
proof (cases "length (m_notes s') = length (m_notes s)")
  case True
  have "map m_tags (m_notes s') = map m_tags (m_notes s)"
    using assms True
    by (auto simp: ParseLine_def Let_def ParseFolderName_def SetUid_def SetTitle_def SetNote_def
        SetCreationTimeFromUnixTime_def
        split: if_splits sum.splits option.splits dest!: on_rbegin_tags)
  with True show ?thesis by simp
next
  case False
  with ParseLine_length_other [OF assms] have n: "GetLinePropertyName line = ''#NOTE''" by auto
  show ?thesis
  proof (cases "in_trash s \<and> \<not> export_trash options")
    case True
    with n assms have "s' = s" by (simp add: ParseLine_skipped)
    with False show ?thesis by simp
  next
    case False
    from ParseLine_NOTE [OF n False, of env] assms show ?thesis by auto
  qed
qed

lemma ParseLines_tags_kept:
  "ParseLines env options xs s = Inr s' \<Longrightarrow>
   map m_tags (take (length (m_notes s)) (m_notes s')) = map m_tags (m_notes s)"
proof (induction xs arbitrary: s)
  case Nil
  then show ?case by simp
next
  case (Cons x xs)
  then obtain s1 where 1: "ParseLine env options x s = Inr s1"
    and 2: "ParseLines env options xs s1 = Inr s'"
    by (auto split: sum.splits)
  let ?k = "length (m_notes s)" and ?k1 = "length (m_notes s1)"
  have le: "?k \<le> ?k1" by (rule ParseLine_length_mono [OF 1])
  have "map m_tags (take ?k (m_notes s')) = take ?k (map m_tags (take ?k1 (m_notes s')))"
    using le by (simp add: take_map min_def)
  also have "\<dots> = take ?k (map m_tags (m_notes s1))" by (simp only: Cons.IH [OF 2])
  also have "\<dots> = map m_tags (take ?k (m_notes s1))" by (simp add: take_map)
  also have "\<dots> = map m_tags (m_notes s)" by (rule ParseLine_tags_kept [OF 1])
  finally show ?case .
qed

lemma AsTomboyNote_notebooks:
  "convert_tags_to_notebooks options \<Longrightarrow>
   AsTomboyNote env options n =
     note_head env n
     @ concat (map (\<lambda>t. [TAB, TAB] @ ''<tag>'' @ ''system:notebook:'' @ EscapeXml t
                          @ ''</tag>'' @ [LF]) (m_tags n))
     @ note_tail"
  by (simp add: AsTomboyNote_def tags_loop_eq)

text \<open>
  Claim C7. With the default tag \<open>Imported\<close>, a note whose record marker is processed
  while the current folder name is \<open>Work\<close> has, when the parse ends, the tags
  \<open>Imported\<close> and \<open>Work\<close> in this order. With the notebook flag the document holds,
  after its head, one tag element per tag, each with the text \<open>system:notebook:\<close>
  followed by the escaped tag, and nothing else before the closing of the tag list;
  the prefix has no byte the escaper changes, so escaping the prefixed tag gives the
  same text.
\<close>

theorem tags_in_order_and_notebook_prefix:
  assumes "default_tag options = ''Imported''"
    and "current_folder_name s = ''Work''"
    and "GetLinePropertyName line = ''#NOTE''"
    and "\<not> (in_trash s \<and> \<not> export_trash options)"
    and "ParseLines env options (line # rest) s = Inr s'"
  shows "length (m_notes s) < length (m_notes s')
     \<and> m_tags (m_notes s' ! length (m_notes s)) = [''Imported'', ''Work'']
     \<and> (convert_tags_to_notebooks options \<longrightarrow>
          AsTomboyNote env options (m_notes s' ! length (m_notes s)) =
            note_head env (m_notes s' ! length (m_notes s))
            @ [TAB, TAB] @ ''<tag>system:notebook:Imported</tag>'' @ [LF]
            @ [TAB, TAB] @ ''<tag>system:notebook:Work</tag>'' @ [LF]
            @ note_tail)
     \<and> (convert_tags_to_notebooks options \<longrightarrow>
          AsTomboyNote env options n =
            note_head env n
            @ concat (map (\<lambda>t. [TAB, TAB] @ ''<tag>'' @ ''system:notebook:'' @ EscapeXml t
                                 @ ''</tag>'' @ [LF]) (m_tags n))
            @ note_tail)
     \<and> EscapeXml (''system:notebook:'' @ t) = ''system:notebook:'' @ EscapeXml t"
proof -
  let ?k = "length (m_notes s)"
  let ?n = "new_Note\<lparr>m_tags := [''Imported'', ''Work'']\<rparr>"
  have step: "ParseLine env options line s = Inr (s\<lparr>m_notes := m_notes s @ [?n], in_folder := False\<rparr>)"
    using ParseLine_NOTE [OF assms(3,4), of env] assms(1,2)
    by (simp add: AddTag_def new_Note_def)
  with assms(5) have rest: "ParseLines env options rest (s\<lparr>m_notes := m_notes s @ [?n], in_folder := False\<rparr>) = Inr s'"
    by simp
  from ParseLines_length_mono [OF rest] have len: "?k < length (m_notes s')" by simp
  from ParseLines_tags_kept [OF rest]
  have "map m_tags (take (Suc ?k) (m_notes s')) = map m_tags (m_notes s @ [?n])" by simp
  then have "map m_tags (take (Suc ?k) (m_notes s')) ! ?k = map m_tags (m_notes s @ [?n]) ! ?k"
    by simp
  with len have tags: "m_tags (m_notes s' ! ?k) = [''Imported'', ''Work'']"
    by (simp add: nth_append)
  have esc: "EscapeXml (''system:notebook:'' @ t) = ''system:notebook:'' @ EscapeXml t"
    by (simp only: EscapeXml_append EscapeXml_notebook_prefix)
  have e1: "EscapeXml ''Imported'' = ''Imported''" and e2: "EscapeXml ''Work'' = ''Work''"
    by (simp_all add: EscapeXml_eq spec_entity_def DQ_def SQ_def)
  show ?thesis
    using len tags esc by (simp add: AsTomboyNote_notebooks e1 e2)
qed

text \<open>The equations that evaluate the parser on a concrete line.\<close>

lemmas line_eval =
  ParseLine_def Let_def GetLinePropertyName_eq GetLinePropertyValue_eq strip_tab_def TAB_def
  on_rbegin_def ParseFolderName_def ParseNoteTitle_def ParseNote_def tokens_begin_def STX_def LF_def
  AddTag_def SetUid_def SetTitle_def SetNote_def SetCreationTimeFromUnixTime_def new_Note_def
  initial_state_def

theorem tags_in_order_and_notebook_prefix_witness:
  "\<exists>s s'. ParseLines example_env imported_options [''#FOLDER'', ''NAME=Work''] initial_state = Inr s
      \<and> current_folder_name s = ''Work''
      \<and> ParseLines example_env imported_options [''#NOTE'', ''UNIQUEID=u1''] s = Inr s'
      \<and> m_tags (m_notes s' ! 0) = [''Imported'', ''Work'']
      \<and> AsTomboyNote example_env imported_options (m_notes s' ! 0) =
            note_head example_env (m_notes s' ! 0)
            @ [TAB, TAB] @ ''<tag>system:notebook:Imported</tag>'' @ [LF]
            @ [TAB, TAB] @ ''<tag>system:notebook:Work</tag>'' @ [LF]
            @ note_tail"
proof -
  let ?s = "initial_state\<lparr>in_folder := True, current_folder_name := ''Work''\<rparr>"
  let ?s' = "initial_state\<lparr>current_folder_name := ''Work'',
     m_notes := [new_Note\<lparr>m_tags := [''Imported'', ''Work''], m_uid := ''u1''\<rparr>]\<rparr>"
  have h: "ParseLines example_env imported_options [''#FOLDER'', ''NAME=Work''] initial_state = Inr ?s"
    by (simp add: line_eval imported_options_def)
  have n: "ParseLines example_env imported_options (''#NOTE'' # [''UNIQUEID=u1'']) ?s = Inr ?s'"
    by (simp add: line_eval imported_options_def)
  have 1: "default_tag imported_options = ''Imported''" by (simp add: imported_options_def)
  have 2: "current_folder_name ?s = ''Work''" by simp
  have 3: "GetLinePropertyName ''#NOTE'' = ''#NOTE''" by (simp add: line_eval)
  have 4: "\<not> (in_trash ?s \<and> \<not> export_trash imported_options)" by (simp add: initial_state_def)
  have c: "convert_tags_to_notebooks imported_options" by (simp add: imported_options_def)
  from tags_in_order_and_notebook_prefix [OF 1 2 3 4 n] c
  have "m_tags (m_notes ?s' ! length (m_notes ?s)) = [''Imported'', ''Work'']"
    and "AsTomboyNote example_env imported_options (m_notes ?s' ! length (m_notes ?s)) =
            note_head example_env (m_notes ?s' ! length (m_notes ?s))
            @ [TAB, TAB] @ ''<tag>system:notebook:Imported</tag>'' @ [LF]
            @ [TAB, TAB] @ ''<tag>system:notebook:Work</tag>'' @ [LF]
            @ note_tail"
    by blast+
  moreover have "length (m_notes ?s) = 0" by (simp add: initial_state_def)
  ultimately show ?thesis using h n 2
    by (intro exI [of _ ?s] exI [of _ ?s']) simp
qed

subsection \<open>The first line that stops the parse\<close>

lemma ParseLines_Inl:
  "ParseLines env options xs s = Inl e \<Longrightarrow>
   \<exists>pre line post s1. xs = pre @ line # post \<and> ParseLines env options pre s = Inr s1
      \<and> ParseLine env options line s1 = Inl e"
proof (induction xs arbitrary: s)
  case Nil
  then show ?case by simp
next
  case (Cons x xs)
  show ?case
  proof (cases "ParseLine env options x s")
    case (Inl e')
    with Cons.prems have "e' = e" by simp
    with Inl have "x # xs = [] @ x # xs \<and> ParseLines env options [] s = Inr s
        \<and> ParseLine env options x s = Inl e" by simp
    then show ?thesis by blast
  next
    case (Inr s1)
    with Cons.prems have "ParseLines env options xs s1 = Inl e" by simp
    from Cons.IH [OF this] obtain pre line post s2 where
      "xs = pre @ line # post" "ParseLines env options pre s1 = Inr s2"
      "ParseLine env options line s2 = Inl e" by blast
    with Inr have "x # xs = (x # pre) @ line # post \<and> ParseLines env options (x # pre) s = Inr s2
        \<and> ParseLine env options line s2 = Inl e" by simp
    then show ?thesis by blast
  qed
qed

lemma ParseLines_stops_at:
  assumes "ParseLines env options pre s = Inr s1" and "ParseLine env options line s1 = Inl e"
  shows "ParseLines env options (pre @ line # post) s = Inl e"
  using assms by (simp add: ParseLines_append)

lemma processed_NOTE_nonempty:
  assumes "ParseLines env options (a @ l # b) s0 = Inr s"
    and "ParseLines env options a s0 = Inr sa"
    and "GetLinePropertyName l = ''#NOTE''"
    and "\<not> (in_trash sa \<and> \<not> export_trash options)"
  shows "m_notes s \<noteq> []"
proof -
  let ?s1 = "sa\<lparr>m_notes := m_notes sa @
              [(if length (current_folder_name sa) > 0 then AddTag (current_folder_name sa) else id)
                 ((if length (default_tag options) > 0 then AddTag (default_tag options) else id)
                    new_Note)],
            in_folder := False\<rparr>"
  have "ParseLine env options l sa = Inr ?s1" by (rule ParseLine_NOTE [OF assms(3,4)])
  with assms(1,2) have "ParseLines env options b ?s1 = Inr s" by (simp add: ParseLines_append)
  from ParseLines_length_mono [OF this] show ?thesis by auto
qed

subsection \<open>The conversion of the creation time\<close>

lemma decimal_loop_eq:
  "decimal_loop acc ds =
     (if \<forall>c\<in>set ds. is_digit c
      then Some (foldl (\<lambda>acc c. 10 * acc + (of_char c - 48)) acc ds) else None)"
  by (induction ds arbitrary: acc) (simp_all add: is_digit_def)

lemma sign_is_no_digit: "\<not> is_digit (CHR ''-'')" "\<not> is_digit (CHR ''+'')"
  by (simp_all add: is_digit_def)

text \<open>
  The conversion takes exactly the strings made of an optional sign and digits that
  denote a number of 32 bits.
\<close>

lemma lexical_cast_uint32_None_iff:
  "lexical_cast_uint32 v = None \<longleftrightarrow>
   \<not> (\<exists>sg ds. v = sg @ ds \<and> (sg = [] \<or> sg = ''+'' \<or> sg = ''-'') \<and> ds \<noteq> []
          \<and> (\<forall>c\<in>set ds. is_digit c) \<and> decimal_value ds \<le> 4294967295)"
proof (cases v)
  case Nil
  then show ?thesis by (simp add: lexical_cast_uint32_def)
next
  case (Cons c cs)
  let ?ok = "\<lambda>ds. ds \<noteq> [] \<and> (\<forall>c\<in>set ds. is_digit c) \<and> decimal_value ds \<le> 4294967295"
  have body: "lexical_cast_uint32 v = None \<longleftrightarrow>
      \<not> ?ok (if c = CHR ''-'' \<or> c = CHR ''+'' then cs else v)"
    using Cons by (auto simp: lexical_cast_uint32_def Let_def decimal_loop_eq decimal_value_def
        split: option.splits)
  show ?thesis
  proof (cases "c = CHR ''-'' \<or> c = CHR ''+''")
    case True
    have "(\<exists>sg ds. v = sg @ ds \<and> (sg = [] \<or> sg = ''+'' \<or> sg = ''-'') \<and> ?ok ds) \<longleftrightarrow> ?ok cs"
    proof
      assume "\<exists>sg ds. v = sg @ ds \<and> (sg = [] \<or> sg = ''+'' \<or> sg = ''-'') \<and> ?ok ds"
      then obtain sg ds where v: "v = sg @ ds" and sg: "sg = [] \<or> sg = ''+'' \<or> sg = ''-''"
        and ok: "?ok ds" by blast
      show "?ok cs"
      proof (cases "sg = []")
        case True
        with v Cons ok have "is_digit c" by auto
        with \<open>c = CHR ''-'' \<or> c = CHR ''+''\<close> sign_is_no_digit show ?thesis by auto
      next
        case False
        with sg v Cons have "ds = cs" by auto
        with ok show ?thesis by simp
      qed
    next
      assume ok: "?ok cs"
      from True Cons have "v = ''-'' @ cs \<or> v = ''+'' @ cs" by auto
      with ok show "\<exists>sg ds. v = sg @ ds \<and> (sg = [] \<or> sg = ''+'' \<or> sg = ''-'') \<and> ?ok ds"
        by blast
    qed
    with body True show ?thesis by simp
  next
    case False
    have "(\<exists>sg ds. v = sg @ ds \<and> (sg = [] \<or> sg = ''+'' \<or> sg = ''-'') \<and> ?ok ds) \<longleftrightarrow> ?ok v"
    proof
      assume "\<exists>sg ds. v = sg @ ds \<and> (sg = [] \<or> sg = ''+'' \<or> sg = ''-'') \<and> ?ok ds"
      then obtain sg ds where v: "v = sg @ ds" and sg: "sg = [] \<or> sg = ''+'' \<or> sg = ''-''"
        and ok: "?ok ds" by blast
      from sg v Cons False have "sg = []" by auto
      with v ok show "?ok v" by simp
    next
      assume "?ok v"
      then have "v = [] @ v \<and> ([] = [] \<or> [] = ''+'' \<or> [] = ''-'') \<and> ?ok v" by simp
      then show "\<exists>sg ds. v = sg @ ds \<and> (sg = [] \<or> sg = ''+'' \<or> sg = ''-'') \<and> ?ok ds"
        by blast
    qed
    with body False show ?thesis by simp
  qed
qed

text \<open>Every value the specification calls valid is converted, to the number it denotes.\<close>

lemma spec_uint32_converted:
  "spec_uint32 v = Some x \<Longrightarrow> lexical_cast_uint32 v = Some x"
proof -
  assume a: "spec_uint32 v = Some x"
  then obtain c cs where v: "v = c # cs" by (cases v) (auto simp: spec_uint32_def)
  from a v have d: "is_digit c"
    by (auto simp: spec_uint32_def decimal_loop_eq split: if_splits option.splits)
  then have "c \<noteq> CHR ''-''" "c \<noteq> CHR ''+''" using sign_is_no_digit by auto
  with a v show ?thesis
    by (auto simp: spec_uint32_def lexical_cast_uint32_def Let_def split: if_splits option.splits)
qed

text \<open>A parse that comes to its end is followed by the writing of its notes.\<close>

lemma main_parsed:
  assumes "files w (c_str (input_file options)) = Some content"
    and "ParseLines env options (getlines content) initial_state = Inr s"
  shows "main env options w = (WriteFiles env options (m_notes s) w, Returned 0)"
  using assms by (simp add: main_def ParseFile_def)

text \<open>
  Claim C8, as amended. The conversion is the library's. When a \<open>CREATED\<close> line is
  reached (the lines before it are parsed, the trash filter does not skip it) and its
  value is not an optional sign followed by decimal digits that denote a number of at
  most \<open>4294967295\<close>, \<open>main\<close> ends by the uncaught exception, not by returning, and
  the world is as it was: no file is written, since the parse comes to its end before
  the first note is written.
\<close>

theorem bad_created_aborts_run:
  assumes "files w (c_str (input_file options)) = Some content"
    and "getlines content = pre @ line # post"
    and "ParseLines env options pre initial_state = Inr s"
    and "GetLinePropertyName line = ''CREATED''"
    and "\<not> (in_trash s \<and> \<not> export_trash options)"
    and "lexical_cast env = lexical_cast_uint32"
    and "\<not> (\<exists>sg ds. GetLinePropertyValue line = sg @ ds
              \<and> (sg = [] \<or> sg = ''+'' \<or> sg = ''-'') \<and> ds \<noteq> []
              \<and> (\<forall>c\<in>set ds. is_digit c) \<and> decimal_value ds \<le> 4294967295)"
  shows "main env options w = (w, Stopped BadLexicalCast)
     \<and> files (fst (main env options w)) = files w
     \<and> snd (main env options w) \<noteq> Returned 0"
proof -
  have "lexical_cast env (GetLinePropertyValue line) = None"
    using assms(6,7) lexical_cast_uint32_None_iff [of "GetLinePropertyValue line"] by simp
  then have "ParseLine env options line s = Inl BadLexicalCast"
    by (rule ParseLine_CREATED_bad [OF assms(4,5)])
  from ParseLines_stops_at [OF assms(3) this]
  have "ParseLines env options (getlines content) initial_state = Inl BadLexicalCast"
    by (simp add: assms(2))
  with assms(1) have "main env options w = (w, Stopped BadLexicalCast)"
    by (simp add: main_def ParseFile_def)
  then show ?thesis by simp
qed

theorem bad_created_aborts_run_witness:
  "main example_env default_options (world_with (''#NOTE'' @ [LF] @ ''UNIQUEID=u1'' @ [LF] @ ''NAME=t'' @ [STX, STX] @ ''b'' @ [LF] @ ''CREATED=12x'' @ [LF]))
     = (world_with (''#NOTE'' @ [LF] @ ''UNIQUEID=u1'' @ [LF] @ ''NAME=t'' @ [STX, STX] @ ''b'' @ [LF] @ ''CREATED=12x'' @ [LF]), Stopped BadLexicalCast)"
proof -
  let ?content = "''#NOTE'' @ [LF] @ ''UNIQUEID=u1'' @ [LF] @ ''NAME=t'' @ [STX, STX] @ ''b'' @ [LF] @ ''CREATED=12x'' @ [LF]"
  let ?s = "initial_state\<lparr>m_notes := [new_Note\<lparr>m_uid := ''u1'', m_title := ''t'', m_note := ''t'' @ [LF] @ ''b''\<rparr>]\<rparr>"
  have 1: "files (world_with ?content) (c_str (input_file default_options)) = Some ?content"
    by (simp add: world_with_def default_options_def c_str_def)
  have 2: "getlines ?content = [''#NOTE'', ''UNIQUEID=u1'', ''NAME=t'' @ [STX, STX] @ ''b''] @ ''CREATED=12x'' # []"
    by (simp add: getlines_def LF_def STX_def)
  have 3: "ParseLines example_env default_options [''#NOTE'', ''UNIQUEID=u1'', ''NAME=t'' @ [STX, STX] @ ''b''] initial_state = Inr ?s"
    by (simp add: line_eval default_options_def)
  have 4: "GetLinePropertyName ''CREATED=12x'' = ''CREATED''" by (simp add: line_eval)
  have 5: "\<not> (in_trash ?s \<and> \<not> export_trash default_options)" by (simp add: initial_state_def)
  have 6: "lexical_cast example_env = lexical_cast_uint32" by (simp add: example_env_def)
  have "lexical_cast_uint32 (GetLinePropertyValue ''CREATED=12x'') = None"
    by (simp add: line_eval lexical_cast_uint32_def)
  then have 7: "\<not> (\<exists>sg ds. GetLinePropertyValue ''CREATED=12x'' = sg @ ds
              \<and> (sg = [] \<or> sg = ''+'' \<or> sg = ''-'') \<and> ds \<noteq> []
              \<and> (\<forall>c\<in>set ds. is_digit c) \<and> decimal_value ds \<le> 4294967295)"
    using lexical_cast_uint32_None_iff [of "GetLinePropertyValue ''CREATED=12x''"] by blast
  from bad_created_aborts_run [OF 1 2 3 4 5 6 7] show ?thesis by simp
qed

text \<open>
  The claim as it stands fails at a value with a sign: \<open>-1\<close> is no unsigned decimal
  integer, the library converts it to \<open>4294967295\<close>, and the run writes the note and
  returns 0.
\<close>

theorem minus_one_created_counterexample:
  "getlines minus_input = [''#NOTE'', ''UNIQUEID=u1'', ''NAME=t'' @ [STX, STX] @ ''b'', ''CREATED=-1'']
   \<and> GetLinePropertyValue ''CREATED=-1'' = ''-1''
   \<and> spec_uint32 ''-1'' = None
   \<and> lexical_cast example_env ''-1'' = Some 4294967295
   \<and> main example_env default_options (world_with minus_input)
       = (WriteFiles example_env default_options [minus_note] (world_with minus_input), Returned 0)
   \<and> files (fst (main example_env default_options (world_with minus_input))) ''exported/u1.note''
       = Some (AsTomboyNote example_env default_options minus_note @ [LF])"
proof -
  let ?s = "\<lparr>m_notes = [minus_note], current_folder_name = [], in_folder = False, in_trash = False\<rparr>"
  have g: "getlines minus_input = [''#NOTE'', ''UNIQUEID=u1'', ''NAME=t'' @ [STX, STX] @ ''b'', ''CREATED=-1'']"
    by (simp add: getlines_def minus_input_def LF_def STX_def)
  have v: "GetLinePropertyValue ''CREATED=-1'' = ''-1''" by (simp add: line_eval)
  have sp: "spec_uint32 ''-1'' = None" by (simp add: spec_uint32_def)
  have lc: "lexical_cast example_env ''-1'' = Some 4294967295"
    by (simp add: example_env_def lexical_cast_uint32_def)
  have p: "ParseLines example_env default_options (getlines minus_input) initial_state = Inr ?s"
    by (simp add: g line_eval default_options_def minus_note_def lc)
  have f: "files (world_with minus_input) (c_str (input_file default_options)) = Some minus_input"
    by (simp add: world_with_def default_options_def c_str_def)
  have run: "main example_env default_options (world_with minus_input)
       = (WriteFiles example_env default_options [minus_note] (world_with minus_input), Returned 0)"
    using main_parsed [OF f p] by simp
  have n: "m_note minus_note \<noteq> []" "m_uid minus_note \<noteq> []"
    "ofstream_open example_env (c_str (out_fname default_options minus_note))"
    "c_str (out_fname default_options minus_note) = ''exported/u1.note''"
    by (simp_all add: minus_note_def example_env_def out_fname_def default_options_def c_str_def)
  have w: "files (fst (main example_env default_options (world_with minus_input))) ''exported/u1.note''
       = Some (AsTomboyNote example_env default_options minus_note @ [LF])"
    using run CreateTomboyNote_written [OF n(1,2,3), of "world_with minus_input"] n(4) by simp
  from g v sp lc run w show ?thesis by blast
qed

text \<open>
  Claim C10. Suppose every line that reaches one of the three handlers reading
  \<open>notes_.rbegin()\<close> (the \<open>UNIQUEID\<close> handler, the \<open>NAME\<close> handler outside a
  folder header, the \<open>CREATED\<close> handler) comes after a record marker that was
  processed. Then the parse never reads the last note of an empty vector.
\<close>

theorem rbegin_never_on_empty:
  assumes "\<forall>pre line post s.
      lines = pre @ line # post \<and> ParseLines env options pre initial_state = Inr s
      \<and> \<not> (in_trash s \<and> \<not> export_trash options)
      \<and> (GetLinePropertyName line = ''CREATED''
          \<or> (GetLinePropertyName line = ''UNIQUEID'' \<or> GetLinePropertyName line = ''NAME'')
             \<and> \<not> in_folder s)
      \<longrightarrow> (\<exists>a l b sa. pre = a @ l # b \<and> ParseLines env options a initial_state = Inr sa
             \<and> GetLinePropertyName l = ''#NOTE''
             \<and> \<not> (in_trash sa \<and> \<not> export_trash options))"
  shows "ParseLines env options lines initial_state \<noteq> Inl EmptyNotesAccess"
proof
  assume "ParseLines env options lines initial_state = Inl EmptyNotesAccess"
  from ParseLines_Inl [OF this] obtain pre line post s where
    split: "lines = pre @ line # post" and pre: "ParseLines env options pre initial_state = Inr s"
    and stop: "ParseLine env options line s = Inl EmptyNotesAccess" by blast
  from ParseLine_EmptyNotesAccess [OF stop]
  have empty: "m_notes s = []" and reach: "\<not> (in_trash s \<and> \<not> export_trash options)"
    "GetLinePropertyName line = ''CREATED''
      \<or> (GetLinePropertyName line = ''UNIQUEID'' \<or> GetLinePropertyName line = ''NAME'')
         \<and> \<not> in_folder s"
    by simp_all
  from assms split pre reach obtain a l b sa where
    "pre = a @ l # b" "ParseLines env options a initial_state = Inr sa"
    "GetLinePropertyName l = ''#NOTE''" "\<not> (in_trash sa \<and> \<not> export_trash options)"
    by blast
  with pre have "m_notes s \<noteq> []" using processed_NOTE_nonempty [of env options a l b initial_state s sa]
    by simp
  with empty show False by simp
qed

theorem rbegin_never_on_empty_witness:
  "ParseLines example_env default_options [''#NOTE'', ''UNIQUEID=u1'', ''CREATED=5''] initial_state
     \<noteq> Inl EmptyNotesAccess
   \<and> ParseLines example_env default_options [''UNIQUEID=u1''] initial_state = Inl EmptyNotesAccess"
proof -
  let ?lines = "[''#NOTE'', ''UNIQUEID=u1'', ''CREATED=5'']"
  have n: "GetLinePropertyName ''#NOTE'' = ''#NOTE''" by (simp add: line_eval)
  have i: "ParseLines example_env default_options [] initial_state = Inr initial_state"
    "\<not> (in_trash initial_state \<and> \<not> export_trash default_options)"
    by (simp_all add: initial_state_def)
  have hyp: "\<forall>pre line post s.
      ?lines = pre @ line # post \<and> ParseLines example_env default_options pre initial_state = Inr s
      \<and> \<not> (in_trash s \<and> \<not> export_trash default_options)
      \<and> (GetLinePropertyName line = ''CREATED''
          \<or> (GetLinePropertyName line = ''UNIQUEID'' \<or> GetLinePropertyName line = ''NAME'')
             \<and> \<not> in_folder s)
      \<longrightarrow> (\<exists>a l b sa. pre = a @ l # b \<and> ParseLines example_env default_options a initial_state = Inr sa
             \<and> GetLinePropertyName l = ''#NOTE''
             \<and> \<not> (in_trash sa \<and> \<not> export_trash default_options))"
  proof (intro allI impI)
    fix pre line post s
    assume A: "?lines = pre @ line # post \<and> ParseLines example_env default_options pre initial_state = Inr s
      \<and> \<not> (in_trash s \<and> \<not> export_trash default_options)
      \<and> (GetLinePropertyName line = ''CREATED''
          \<or> (GetLinePropertyName line = ''UNIQUEID'' \<or> GetLinePropertyName line = ''NAME'')
             \<and> \<not> in_folder s)"
    then have "?lines = pre @ line # post" by simp
    then consider "pre = []" "line = ''#NOTE''"
      | "pre = [] @ ''#NOTE'' # []"
      | "pre = [] @ ''#NOTE'' # [''UNIQUEID=u1'']"
      by (auto simp: Cons_eq_append_conv)
    then show "\<exists>a l b sa. pre = a @ l # b \<and> ParseLines example_env default_options a initial_state = Inr sa
             \<and> GetLinePropertyName l = ''#NOTE''
             \<and> \<not> (in_trash sa \<and> \<not> export_trash default_options)"
    proof cases
      case 1
      with A n show ?thesis by simp
    next
      case 2
      with n i show ?thesis by blast
    next
      case 3
      with n i show ?thesis by blast
    qed
  qed
  have "ParseLines example_env default_options [''UNIQUEID=u1''] initial_state = Inl EmptyNotesAccess"
    by (simp add: line_eval)
  with rbegin_never_on_empty [OF hyp] show ?thesis by simp
qed

subsection \<open>Folder blocks\<close>


lemma ParseLines_Cons_Inr:
  "ParseLines env options (x # xs) s = Inr s' \<Longrightarrow>
   \<exists>s1. ParseLine env options x s = Inr s1 \<and> ParseLines env options xs s1 = Inr s'"
  by (auto split: sum.splits)



subsection \<open>The files a run writes\<close>


















subsection \<open>The round-trip scenario\<close>

lemma getlines_soup_input:
  "getlines soup_input =
     [''#FOLDER'', ''NAME=Recipes'' @ [STX], ''#NOTE'', ''UNIQUEID=abc123'',
      ''NAME=Soup'' @ [STX] @ ''Boil'' @ [STX, STX] @ ''Serve'', ''CREATED=1000000000'']"
  by (simp add: getlines_def soup_input_def LF_def STX_def)

lemma ParseLines_soup_input:
  assumes "default_tag options = []" and "lexical_cast env ''1000000000'' = Some t"
  shows "ParseLines env options (getlines soup_input) initial_state =
     Inr \<lparr>m_notes = [soup_note t], current_folder_name = ''Recipes'',
          in_folder = False, in_trash = False\<rparr>"
  using assms by (simp add: getlines_soup_input line_eval soup_note_def)

lemma soup_document:
  assumes "\<not> convert_tags_to_notebooks options"
  shows "AsTomboyNote env options (soup_note t) =
     note_open_tag
     @ [TAB] @ ''<title>Soup</title>'' @ [LF]
     @ [TAB] @ ''<text xml:space='' @ [DQ] @ ''preserve'' @ [DQ] @ ''><note-content version=''
       @ [DQ] @ ''0.1'' @ [DQ] @ ''>'' @ EscapeXml (''Soup'' @ [STX] @ ''Boil'' @ [LF] @ ''Serve'')
       @ ''</note-content></text>'' @ [LF]
     @ [TAB] @ ''<last-change-date>'' @ format_ptime env (Some t) @ ''</last-change-date>'' @ [LF]
     @ [TAB] @ ''<last-metadata-change-date>'' @ format_ptime env (Some t)
       @ ''</last-metadata-change-date>'' @ [LF]
     @ [TAB] @ ''<create-date>'' @ format_ptime env (Some t) @ ''</create-date>'' @ [LF]
     @ [TAB] @ ''<tags>'' @ [LF]
     @ [TAB, TAB] @ ''<tag>Recipes</tag>'' @ [LF]
     @ note_tail"
proof -
  have e1: "EscapeXml ''Soup'' = ''Soup''" and e2: "EscapeXml ''Recipes'' = ''Recipes''"
    by (simp_all add: EscapeXml_eq spec_entity_def DQ_def SQ_def)
  show ?thesis
    using assms
    by (simp add: AsTomboyNote_def tags_loop_eq note_head_def GetTomboyDateString_def
        soup_note_def e1 e2 Let_def)
qed

text \<open>
  Claim C2, as amended. With the empty default tag and the notebook flag off, the input
  of the scenario makes the run write the one file \<open>abc123.note\<close> of the output
  directory and return 0. The title element of the document is \<open>Soup\<close>, its tag list
  is the one tag \<open>Recipes\<close>, and its note-content element is the escaped body, where
  the body is the whole value of the \<open>NAME\<close> line with the doubled STX replaced by a
  line feed: \<open>Soup\<close>, one STX byte, \<open>Boil\<close>, a line feed, \<open>Serve\<close>.
\<close>

theorem soup_scenario:
  assumes "default_tag options = []"
    and "\<not> convert_tags_to_notebooks options"
    and "files w (c_str (input_file options)) = Some soup_input"
    and "lexical_cast env ''1000000000'' = Some t"
    and "ofstream_open env (c_str (output_dir options @ ''/abc123.note''))"
  shows "main env options w =
       (w\<lparr>files := (files w)(c_str (output_dir options @ ''/abc123.note'')
                                 \<mapsto> AsTomboyNote env options (soup_note t) @ [LF])\<rparr>,
        Returned 0)
     \<and> AsTomboyNote env options (soup_note t) =
         note_open_tag
         @ [TAB] @ ''<title>Soup</title>'' @ [LF]
         @ [TAB] @ ''<text xml:space='' @ [DQ] @ ''preserve'' @ [DQ] @ ''><note-content version=''
           @ [DQ] @ ''0.1'' @ [DQ] @ ''>'' @ EscapeXml (''Soup'' @ [STX] @ ''Boil'' @ [LF] @ ''Serve'')
           @ ''</note-content></text>'' @ [LF]
         @ [TAB] @ ''<last-change-date>'' @ format_ptime env (Some t) @ ''</last-change-date>'' @ [LF]
         @ [TAB] @ ''<last-metadata-change-date>'' @ format_ptime env (Some t)
           @ ''</last-metadata-change-date>'' @ [LF]
         @ [TAB] @ ''<create-date>'' @ format_ptime env (Some t) @ ''</create-date>'' @ [LF]
         @ [TAB] @ ''<tags>'' @ [LF]
         @ [TAB, TAB] @ ''<tag>Recipes</tag>'' @ [LF]
         @ note_tail
     \<and> spec_unescape (EscapeXml (''Soup'' @ [STX] @ ''Boil'' @ [LF] @ ''Serve''))
         = ''Soup'' @ [STX] @ ''Boil'' @ [LF] @ ''Serve''"
proof -
  let ?s = "\<lparr>m_notes = [soup_note t], current_folder_name = ''Recipes'',
          in_folder = False, in_trash = False\<rparr>"
  have p: "ParseLines env options (getlines soup_input) initial_state = Inr ?s"
    by (rule ParseLines_soup_input [OF assms(1,4)])
  have n: "m_note (soup_note t) \<noteq> []" "m_uid (soup_note t) \<noteq> []"
    by (simp_all add: soup_note_def)
  have o: "out_fname options (soup_note t) = output_dir options @ ''/abc123.note''"
    by (simp add: out_fname_def soup_note_def)
  have c: "CreateTomboyNote env options (soup_note t) w =
      w\<lparr>files := (files w)(c_str (output_dir options @ ''/abc123.note'')
                                 \<mapsto> AsTomboyNote env options (soup_note t) @ [LF])\<rparr>"
    using CreateTomboyNote_written [of "soup_note t" env options w] n o assms(5) by simp
  have run: "main env options w =
       (w\<lparr>files := (files w)(c_str (output_dir options @ ''/abc123.note'')
                                 \<mapsto> AsTomboyNote env options (soup_note t) @ [LF])\<rparr>,
        Returned 0)"
    using main_parsed [OF assms(3) p] c by simp
  show ?thesis
    by (simp only: run soup_document [OF assms(2)] spec_unescape_concat EscapeXml_eq simp_thms)
qed

theorem soup_scenario_witness:
  "main example_env default_options (world_with soup_input) =
     ((world_with soup_input)\<lparr>files := (files (world_with soup_input))
         (''exported/abc123.note''
            \<mapsto> AsTomboyNote example_env default_options (soup_note 1000000000) @ [LF])\<rparr>,
      Returned 0)"
proof -
  have 1: "default_tag default_options = []" by (simp add: default_options_def)
  have 2: "\<not> convert_tags_to_notebooks default_options" by (simp add: default_options_def)
  have 3: "files (world_with soup_input) (c_str (input_file default_options)) = Some soup_input"
    by (simp add: world_with_def default_options_def c_str_def)
  have 4: "lexical_cast example_env ''1000000000'' = Some 1000000000"
    by (simp add: example_env_def lexical_cast_uint32_def)
  have 5: "ofstream_open example_env (c_str (output_dir default_options @ ''/abc123.note''))"
    by (simp add: example_env_def)
  have o: "c_str (output_dir default_options @ ''/abc123.note'') = ''exported/abc123.note''"
    by (simp add: default_options_def c_str_def)
  from soup_scenario [OF 1 2 3 4 5] show ?thesis by (simp only: o)
qed

text \<open>
  The claim as it stands fails on the body: the note parsed from the input of the
  scenario has the title and the STX byte in front of \<open>Boil\<close>, and the file written
  is not the document of a note with the body \<open>Boil\<close>, line feed, \<open>Serve\<close>.
\<close>

theorem soup_body_counterexample:
  "snd (ParseFile example_env default_options (world_with soup_input)) = Inr [soup_note 1000000000]
   \<and> m_note (soup_note 1000000000) = ''Soup'' @ [STX] @ ''Boil'' @ [LF] @ ''Serve''
   \<and> spec_unescape (EscapeXml (m_note (soup_note 1000000000))) \<noteq> ''Boil'' @ [LF] @ ''Serve''
   \<and> files (fst (main example_env default_options (world_with soup_input))) ''exported/abc123.note''
       = Some (AsTomboyNote example_env default_options (soup_note 1000000000) @ [LF])
   \<and> AsTomboyNote example_env default_options (soup_note 1000000000)
       \<noteq> AsTomboyNote example_env default_options
            ((soup_note 1000000000)\<lparr>m_note := ''Boil'' @ [LF] @ ''Serve''\<rparr>)"
proof -
  let ?s = "\<lparr>m_notes = [soup_note 1000000000], current_folder_name = ''Recipes'',
          in_folder = False, in_trash = False\<rparr>"
  have 1: "default_tag default_options = []" by (simp add: default_options_def)
  have 4: "lexical_cast example_env ''1000000000'' = Some 1000000000"
    by (simp add: example_env_def lexical_cast_uint32_def)
  have 3: "files (world_with soup_input) (c_str (input_file default_options)) = Some soup_input"
    by (simp add: world_with_def default_options_def c_str_def)
  have p: "ParseLines example_env default_options (getlines soup_input) initial_state = Inr ?s"
    by (rule ParseLines_soup_input [OF 1 4])
  have a: "snd (ParseFile example_env default_options (world_with soup_input)) = Inr [soup_note 1000000000]"
    using 3 p by (simp add: ParseFile_def)
  have b: "m_note (soup_note 1000000000) = ''Soup'' @ [STX] @ ''Boil'' @ [LF] @ ''Serve''"
    by (simp add: soup_note_def)
  have rt: "spec_unescape (EscapeXml x) = x" for x
    by (simp only: EscapeXml_eq spec_unescape_concat)
  have c: "spec_unescape (EscapeXml (m_note (soup_note 1000000000))) \<noteq> ''Boil'' @ [LF] @ ''Serve''"
    by (simp add: rt soup_note_def)
  have n: "m_note (soup_note 1000000000) \<noteq> []" "m_uid (soup_note 1000000000) \<noteq> []"
    "ofstream_open example_env (c_str (out_fname default_options (soup_note 1000000000)))"
    "c_str (out_fname default_options (soup_note 1000000000)) = ''exported/abc123.note''"
    by (simp_all add: soup_note_def example_env_def out_fname_def default_options_def c_str_def)
  have d: "files (fst (main example_env default_options (world_with soup_input))) ''exported/abc123.note''
       = Some (AsTomboyNote example_env default_options (soup_note 1000000000) @ [LF])"
    using main_parsed [OF 3 p] CreateTomboyNote_written [OF n(1,2,3), of "world_with soup_input"] n(4)
    by simp
  have e: "AsTomboyNote example_env default_options (soup_note 1000000000)
       \<noteq> AsTomboyNote example_env default_options
            ((soup_note 1000000000)\<lparr>m_note := ''Boil'' @ [LF] @ ''Serve''\<rparr>)"
    by (simp add: AsTomboyNote_def tags_loop_eq note_head_def soup_note_def EscapeXml_eq
        spec_entity_def DQ_def SQ_def STX_def LF_def default_options_def Let_def)
  from a b c d e show ?thesis by blast
qed

end
